theory Spec2Isabelle
  imports Complex_Main "HOL-Library.Word" "HOL-Library.Signed_Division"
begin

section \<open>Data model of \<open>main.go\<close>\<close>

text \<open>
  The program reads certificate chains from a MySQL store, rebuilds each chain (leaf
  first) and posts it to a Certificate Transparency log. The embedding follows the first
  (complete) version of \<open>main.go\<close>; the two shorter drafts that follow it in the source
  file lack the counters, the dry-run client and the deferred recording.

  Go values are modelled as follows.
  \<^item> A \<open>[]byte\<close> is a \<open>byte list option\<close>: \<open>None\<close> is the \<open>nil\<close> slice, which the
    source tests for (\<open>leaf == nil\<close>) and which differs from an empty, non-nil slice.
    A \<open>[][]byte\<close> is a plain list where the source only ranges over it (there, \<open>nil\<close>
    and an empty slice behave alike).
  \<^item> \<open>int64\<close> is \<open>64 word\<close>; signed readings use \<open>sint\<close>.
  \<^item> An \<open>error\<close> result is the left summand of a sum type; a panic is a value of
    \<open>exec\<close>.
  \<^item> The store and the HTTP client are external: they are parameters of the model.
\<close>

type_synonym byte = "8 word"
type_synonym go_bytes = "byte list option"
type_synonym int64 = "64 word"

datatype go_error =
    ErrNoRows
  | StoreError string
  | ChainWithoutEndEntity
  | TransportError string
  | Non200 string
  | ReadError string
  | JsonError string

datatype panic_value = NilDereference | PanicError string

datatype 'a exec = Panic panic_value | Return 'a

record chain =
  Fingerprint :: go_bytes
  ID :: int64
  certs :: "go_bytes list"

record report =
  CertFP :: string
  EndEntity :: bool

text \<open>
  The three queries of the source, as functions of their arguments (the store is read
  only; its contents are taken not to change during a run):
  \<open>select_chains limit offset\<close> is \<open>db.Select(&chains, selectChains, limit, offset)\<close>,
  \<open>select_reports fp\<close> is \<open>db.Select(&reports, selectReports, fp)\<close>, and
  \<open>select_raw fp\<close> is \<open>db.SelectOne(&raw, selectRawCert, fp)\<close>, whose result is a
  \<open>[]byte\<close> and so may be \<open>nil\<close> (a NULL column scans into a nil slice).
\<close>

record db =
  select_chains :: "int \<Rightarrow> int \<Rightarrow> go_error + chain list"
  select_reports :: "go_bytes \<Rightarrow> go_error + report list"
  select_raw :: "string \<Rightarrow> go_error + go_bytes"

section \<open>\<open>getCerts\<close>: assembling one chain\<close>

text \<open>
  The loop of \<open>getCerts\<close> over the reports, with the two locals \<open>leaf\<close> and \<open>others\<close>
  as accumulators. A failing lookup returns at once.
\<close>

fun getCerts_loop ::
  "db \<Rightarrow> report list \<Rightarrow> go_bytes \<Rightarrow> go_bytes list \<Rightarrow> go_error + (go_bytes \<times> go_bytes list)"
where
  "getCerts_loop d [] leaf others = Inr (leaf, others)"
| "getCerts_loop d (r # rs) leaf others =
     (case select_raw d (CertFP r) of
        Inl err \<Rightarrow> Inl err
      | Inr raw \<Rightarrow>
          if EndEntity r then getCerts_loop d rs raw others
          else getCerts_loop d rs leaf (others @ [raw]))"

definition getCerts :: "db \<Rightarrow> chain \<Rightarrow> go_error + chain" where
  "getCerts d partialChain =
     (case select_reports d (Fingerprint partialChain) of
        Inl err \<Rightarrow> Inl err
      | Inr reports \<Rightarrow>
          (case getCerts_loop d reports None [] of
             Inl err \<Rightarrow> Inl err
           | Inr (leaf, others) \<Rightarrow>
               if leaf = None then Inl ChainWithoutEndEntity
               else Inr (partialChain\<lparr>certs := leaf # others\<rparr>)))"

section \<open>The assembly loop of \<open>main\<close>\<close>

text \<open>
  The inner loop of \<open>main\<close> over one batch; \<open>submissions\<close> is the content of the
  submission channel so far. An error of \<open>getCerts\<close> takes the \<open>continue\<close> branch
  (\<open>panic(err)\<close> is commented out in the source), whatever the error is.
\<close>

fun assemble_batch :: "db \<Rightarrow> chain list \<Rightarrow> chain list \<Rightarrow> chain list" where
  "assemble_batch d [] submissions = submissions"
| "assemble_batch d (partialChain # rest) submissions =
     (case getCerts d partialChain of
        Inl err \<Rightarrow> assemble_batch d rest submissions
      | Inr c \<Rightarrow> assemble_batch d rest (submissions @ [c]))"

fun assemble :: "db \<Rightarrow> chain list list \<Rightarrow> chain list \<Rightarrow> chain list" where
  "assemble d [] submissions = submissions"
| "assemble d (batch # batches) submissions =
     assemble d batches (assemble_batch d batch submissions)"

section \<open>\<open>getChains\<close>: pagination\<close>

definition maxChains :: int where
  "maxChains = 1000"

text \<open>
  What a run of \<open>getChains\<close> does: the offsets of the page requests it issued, the
  batches it sent on \<open>chainCh\<close>, and the error it returned (\<open>None\<close> is \<open>nil\<close>).
  The loop of the source has no bound of its own (a store that always answers with a full
  page keeps it running), so the model is a partial function: \<open>None\<close> is a run that
  never returns. The offset is a Go \<open>int\<close>, taken as 64 bits wide: \<open>offset += len(chains)\<close>
  wraps around, which \<open>go_int\<close> writes out.
\<close>

definition go_int :: "int \<Rightarrow> int" where
  "go_int k = (k + 9223372036854775808) mod 18446744073709551616 - 9223372036854775808"

record getChains_result =
  requests :: "int list"
  emitted :: "chain list list"
  returned :: "go_error option"

partial_function (option) getChains_loop ::
  "db \<Rightarrow> int \<Rightarrow> int list \<Rightarrow> chain list list \<Rightarrow> getChains_result option"
where
  "getChains_loop d offset reqs out =
     (case select_chains d maxChains offset of
        Inl err \<Rightarrow>
          if err = ErrNoRows
          then Some \<lparr>requests = reqs @ [offset], emitted = out, returned = None\<rparr>
          else Some \<lparr>requests = reqs @ [offset], emitted = out, returned = Some err\<rparr>
      | Inr page \<Rightarrow>
          if int (length page) < maxChains
          then Some \<lparr>requests = reqs @ [offset], emitted = out @ [page], returned = None\<rparr>
          else getChains_loop d (go_int (offset + int (length page))) (reqs @ [offset])
                 (out @ [page]))"

declare getChains_loop.simps [code]

definition getChains :: "db \<Rightarrow> int \<Rightarrow> getChains_result option" where
  "getChains d initOffset = getChains_loop d initOffset [] []"

section \<open>\<open>certsToSub\<close>: the submission body\<close>

subsection \<open>\<open>base64.StdEncoding.EncodeToString\<close>\<close>

definition encodeStd :: string where
  "encodeStd = ''ABCDEFGHIJKLMNOPQRSTUVWXYZabcdefghijklmnopqrstuvwxyz0123456789+/''"

definition enc :: "nat \<Rightarrow> char" where
  "enc v = encodeStd ! (v mod 64)"

text \<open>
  The encoder of the Go library: three bytes make a 24-bit value \<open>val\<close>, written as four
  characters \<open>encode[val >> k & 0x3F]\<close>; a rest of one or two bytes is padded with \<open>=\<close>.
\<close>

fun EncodeToString :: "byte list \<Rightarrow> string" where
  "EncodeToString (a # b # c # rest) =
     (let val = unat a * 65536 + unat b * 256 + unat c
      in [enc (val div 262144), enc (val div 4096), enc (val div 64), enc val])
     @ EncodeToString rest"
| "EncodeToString [a, b] =
     (let val = unat a * 65536 + unat b * 256
      in [enc (val div 262144), enc (val div 4096), enc (val div 64), CHR ''=''])"
| "EncodeToString [a] =
     (let val = unat a * 65536
      in [enc (val div 262144), enc (val div 4096), CHR ''='', CHR ''=''])"
| "EncodeToString [] = []"

definition bytes_of :: "go_bytes \<Rightarrow> byte list" where
  "bytes_of c = (case c of None \<Rightarrow> [] | Some bs \<Rightarrow> bs)"

subsection \<open>\<open>json.Marshal\<close>\<close>

text \<open>
  The part of \<open>encoding/json\<close> that \<open>certsToSub\<close> can reach, over a small universe of Go
  values: strings, slices (\<open>None\<close> is \<open>nil\<close>, encoded as \<open>null\<close>), structs with their
  JSON field names, and the two kinds of value on which \<open>json.Marshal\<close> returns an error:
  a value of an unsupported type (a channel, a function, a complex number) and an
  unsupported value (a floating-point NaN or infinity).

  A string is written between double quotes. A byte that is ASCII, at least \<open>0x20\<close>, and
  none of \<open>\\\<close>, the double quote, \<open><\<close>, \<open>>\<close>, \<open>&\<close> is copied as it is; for any other byte
  the encoder writes an escape sequence whose text depends on the library version, so it
  is the parameter \<open>esc\<close>: given the rest of the input, the text written and the number
  of bytes consumed.
\<close>

datatype marshal_error = UnsupportedTypeError | UnsupportedValueError

datatype go_value =
    GoString string
  | GoSlice "go_value list option"
  | GoStruct "(string \<times> go_value) list"
  | GoChan
  | GoNaN

definition dquote :: char where
  "dquote = CHR 0x22"

definition htmlSafe :: "char \<Rightarrow> bool" where
  "htmlSafe ch =
     (32 \<le> (of_char ch :: nat) \<and> (of_char ch :: nat) < 128 \<and>
      ch \<noteq> CHR 0x5C \<and> ch \<noteq> CHR 0x22 \<and> ch \<noteq> CHR ''<'' \<and> ch \<noteq> CHR ''>'' \<and> ch \<noteq> CHR ''&'')"

fun json_string_body :: "(string \<Rightarrow> string \<times> nat) \<Rightarrow> string \<Rightarrow> string" where
  "json_string_body esc [] = []"
| "json_string_body esc (ch # s) =
     (if htmlSafe ch then ch # json_string_body esc s
      else fst (esc (ch # s)) @ json_string_body esc (drop (snd (esc (ch # s)) - 1) s))"

definition json_string :: "(string \<Rightarrow> string \<times> nat) \<Rightarrow> string \<Rightarrow> string" where
  "json_string esc s = dquote # json_string_body esc s @ [dquote]"

fun commas :: "string list \<Rightarrow> string" where
  "commas [] = []"
| "commas [s] = s"
| "commas (s # t # ss) = s @ '','' @ commas (t # ss)"

fun collect :: "('e + 'a) list \<Rightarrow> 'e + 'a list" where
  "collect [] = Inr []"
| "collect (x # xs) =
     (case x of
        Inl e \<Rightarrow> Inl e
      | Inr v \<Rightarrow> (case collect xs of Inl e \<Rightarrow> Inl e | Inr vs \<Rightarrow> Inr (v # vs)))"

fun json_Marshal :: "(string \<Rightarrow> string \<times> nat) \<Rightarrow> go_value \<Rightarrow> marshal_error + string" where
  "json_Marshal esc (GoString s) = Inr (json_string esc s)"
| "json_Marshal esc (GoSlice None) = Inr ''null''"
| "json_Marshal esc (GoSlice (Some vs)) =
     (case collect (map (json_Marshal esc) vs) of
        Inl e \<Rightarrow> Inl e
      | Inr ss \<Rightarrow> Inr (''['' @ commas ss @ '']''))"
| "json_Marshal esc (GoStruct fs) =
     (case collect (map (\<lambda>f. json_Marshal esc (snd f)) fs) of
        Inl e \<Rightarrow> Inl e
      | Inr ss \<Rightarrow>
          Inr (''{'' @ commas (map2 (\<lambda>f s. json_string esc (fst f) @ '':'' @ s) fs ss) @ ''}''))"
| "json_Marshal esc GoChan = Inl UnsupportedTypeError"
| "json_Marshal esc GoNaN = Inl UnsupportedValueError"

subsection \<open>\<open>ctSubmission\<close> and \<open>certsToSub\<close>\<close>

text \<open>
  \<open>Chain\<close> is a \<open>[]string\<close> that starts as \<open>nil\<close>; \<open>append\<close> makes it non-nil. Its JSON
  name is \<open>chain\<close> (the struct tag).
\<close>

record ctSubmission =
  Chain :: "string list option"

definition go_append :: "'a list option \<Rightarrow> 'a \<Rightarrow> 'a list option" where
  "go_append xs x = (case xs of None \<Rightarrow> Some [x] | Some ys \<Rightarrow> Some (ys @ [x]))"

definition ctSubmission_value :: "ctSubmission \<Rightarrow> go_value" where
  "ctSubmission_value sub = GoStruct [(''chain'', GoSlice (map_option (map GoString) (Chain sub)))]"

fun certsToSub_loop :: "go_bytes list \<Rightarrow> ctSubmission \<Rightarrow> ctSubmission" where
  "certsToSub_loop [] sub = sub"
| "certsToSub_loop (c # cs) sub =
     certsToSub_loop cs (sub\<lparr>Chain := go_append (Chain sub) (EncodeToString (bytes_of c))\<rparr>)"

definition certsToSub :: "(string \<Rightarrow> string \<times> nat) \<Rightarrow> go_bytes list \<Rightarrow> string exec" where
  "certsToSub esc cs =
     (case json_Marshal esc (ctSubmission_value (certsToSub_loop cs \<lparr>Chain = None\<rparr>)) of
        Inl err \<Rightarrow> Panic (PanicError ''json: unsupported'')
      | Inr j \<Rightarrow> Return j)"

section \<open>Progress counters\<close>

text \<open>
  The three package-level counters. The workers touch them only through
  \<open>atomic.AddInt64\<close> and \<open>atomic.StoreInt64\<close>, and never read them, so what a worker
  does to the counters is a list of atomic operations, and a run of the pool applies an
  interleaving of the workers' lists, one operation at a time.
\<close>

record progress =
  lastSubmittedChain :: int64
  numSubmitted :: int64
  numNewSubmitted :: int64

definition progress0 :: progress where
  "progress0 = \<lparr>lastSubmittedChain = 0, numSubmitted = 0, numNewSubmitted = 0\<rparr>"

datatype atomic_op =
    AddNumNewSubmitted
  | StoreLastSubmittedChain int64
  | AddNumSubmitted

fun apply_op :: "progress \<Rightarrow> atomic_op \<Rightarrow> progress" where
  "apply_op p AddNumNewSubmitted = p\<lparr>numNewSubmitted := numNewSubmitted p + 1\<rparr>"
| "apply_op p (StoreLastSubmittedChain i) = p\<lparr>lastSubmittedChain := i\<rparr>"
| "apply_op p AddNumSubmitted = p\<lparr>numSubmitted := numSubmitted p + 1\<rparr>"

definition run_ops :: "atomic_op list \<Rightarrow> progress \<Rightarrow> progress" where
  "run_ops ops p = foldl apply_op p ops"

section \<open>\<open>submit\<close> and the clients\<close>

text \<open>
  An \<open>*http.Response\<close>: the status code and the body. \<open>Body\<close> is an interface value:
  \<open>None\<close> is \<open>nil\<close>; otherwise it holds what \<open>ioutil.ReadAll\<close> returns on it, the
  bytes read and the error (\<open>None\<close> is \<open>nil\<close>). A client's \<open>Post\<close> takes the URL, the
  content type and the request body.
\<close>

record http_Response =
  StatusCode :: int
  Body :: "(string \<times> go_error option) option"

type_synonym httpClient = "string \<Rightarrow> string \<Rightarrow> string \<Rightarrow> go_error + http_Response"

definition logAddr :: string where
  "logAddr = ''https://ct.googleapis.com/rocketeer/ct/v1/add-chain''"

definition http_StatusOK :: int where
  "http_StatusOK = 200"

text \<open>
  \<open>dryClient.Post\<close> sleeps and returns \<open>&http.Response{StatusCode: http.StatusOK}\<close>:
  every other field of the response has its zero value, so \<open>Body\<close> is \<open>nil\<close>.
\<close>

definition dryClient_Post :: httpClient where
  "dryClient_Post url contentType body = Inr \<lparr>StatusCode = http_StatusOK, Body = None\<rparr>"

text \<open>
  The cutoff of \<open>submit\<close>: \<open>time.Now().UTC().Add(-time.Hour).UnixNano()/1000\<close>, from
  the current time in nanoseconds since the epoch. Go's integer division truncates.
\<close>

definition cutoff :: "int \<Rightarrow> int" where
  "cutoff now = (now - 3600000000000) sdiv 1000"

text \<open>
  \<open>submit\<close> returns its error (\<open>None\<close> is \<open>nil\<close>) and the atomic operations it
  performed, or panics. \<open>unmarshal\<close> is \<open>json.Unmarshal(b, &ctr)\<close> followed by reading
  \<open>ctr.Timestamp\<close>; \<open>now\<close> is the clock at the comparison. The deferred
  \<open>resp.Body.Close()\<close> is the first use of \<open>resp.Body\<close>: on a \<open>nil\<close> interface value the
  method call is a nil dereference, and so is the \<open>ioutil.ReadAll(resp.Body)\<close> that
  follows on either branch. In the non-200 branch \<open>bodyStr\<close> is overwritten by
  \<open>string(body)\<close> whether or not the read failed.
\<close>

definition submit ::
  "(string \<Rightarrow> string \<times> nat) \<Rightarrow> (string \<Rightarrow> go_error + int64) \<Rightarrow> int \<Rightarrow> httpClient \<Rightarrow> chain
     \<Rightarrow> (go_error option \<times> atomic_op list) exec"
where
  "submit esc unmarshal now c submission =
     (case certsToSub esc (certs submission) of
        Panic p \<Rightarrow> Panic p
      | Return j \<Rightarrow>
          (case c logAddr ''encoding/json'' j of
             Inl err \<Rightarrow> Return (Some err, [])
           | Inr resp \<Rightarrow>
               (case Body resp of
                  None \<Rightarrow> Panic NilDereference
                | Some (body, rerr) \<Rightarrow>
                    if StatusCode resp \<noteq> http_StatusOK then Return (Some (Non200 body), [])
                    else
                      (case rerr of
                         Some err \<Rightarrow> Return (Some err, [])
                       | None \<Rightarrow>
                           (case unmarshal body of
                              Inl err \<Rightarrow> Return (Some err, [])
                            | Inr ts \<Rightarrow>
                                Return (None,
                                  (if cutoff now < sint ts then [AddNumNewSubmitted] else [])
                                  @ [StoreLastSubmittedChain (ID submission), AddNumSubmitted]))))))"

section \<open>\<open>submitChains\<close>: the worker pool\<close>

text \<open>
  One iteration of a worker's loop: on an error of \<open>submit\<close> the worker continues;
  otherwise it stores the chain's ID once more.
\<close>

definition worker_item ::
  "(string \<Rightarrow> string \<times> nat) \<Rightarrow> (string \<Rightarrow> go_error + int64) \<Rightarrow> int \<Rightarrow> httpClient \<Rightarrow> chain
     \<Rightarrow> atomic_op list exec"
where
  "worker_item esc unmarshal now c submission =
     (case submit esc unmarshal now c submission of
        Panic p \<Rightarrow> Panic p
      | Return (err, ops) \<Rightarrow>
          (case err of
             Some e \<Rightarrow> Return ops
           | None \<Rightarrow> Return (ops @ [StoreLastSubmittedChain (ID submission)])))"

text \<open>
  The operations of every queued chain, one list per chain. A panic in a worker
  goroutine ends the process, so it is the result of the whole pool. \<open>clock\<close> gives the
  time at which a chain's response is examined.
\<close>

fun pool_items ::
  "(string \<Rightarrow> string \<times> nat) \<Rightarrow> (string \<Rightarrow> go_error + int64) \<Rightarrow> (chain \<Rightarrow> int) \<Rightarrow> httpClient
     \<Rightarrow> chain list \<Rightarrow> atomic_op list list exec"
where
  "pool_items esc unmarshal clock c [] = Return []"
| "pool_items esc unmarshal clock c (submission # rest) =
     (case worker_item esc unmarshal (clock submission) c submission of
        Panic p \<Rightarrow> Panic p
      | Return ops \<Rightarrow>
          (case pool_items esc unmarshal clock c rest of
             Panic p \<Rightarrow> Panic p
           | Return opss \<Rightarrow> Return (ops # opss)))"

text \<open>
  \<open>submitChains\<close> picks the client from the \<open>dryRun\<close> flag and starts \<open>workers\<close>
  goroutines; with no worker nothing is taken from the channel.
\<close>

definition submitChains ::
  "bool \<Rightarrow> int \<Rightarrow> httpClient \<Rightarrow> (string \<Rightarrow> string \<times> nat) \<Rightarrow> (string \<Rightarrow> go_error + int64)
     \<Rightarrow> (chain \<Rightarrow> int) \<Rightarrow> chain list \<Rightarrow> atomic_op list list exec"
where
  "submitChains dryRun workers live esc unmarshal clock submissions =
     (let c = (if dryRun then dryClient_Post else live)
      in if workers \<le> 0 then Return []
         else pool_items esc unmarshal clock c submissions)"

text \<open>
  A trace of the pool: the atomic operations in the order in which they take effect, each
  with the position in the channel of the chain it belongs to. A trace is an interleaving
  of the chains' operation lists when it holds the operations of every chain, in that
  chain's own order, and nothing else. Every run of \<open>submitChains\<close>, with any number of
  workers, yields such a trace: a worker performs the operations of a chain in program
  order, and different workers are not ordered with respect to each other.
\<close>

definition ops_of :: "nat \<Rightarrow> (nat \<times> atomic_op) list \<Rightarrow> atomic_op list" where
  "ops_of i tr = map snd (filter (\<lambda>e. fst e = i) tr)"

definition interleaving :: "atomic_op list list \<Rightarrow> (nat \<times> atomic_op) list \<Rightarrow> bool" where
  "interleaving opss tr =
     ((\<forall>e\<in>set tr. fst e < length opss) \<and> (\<forall>i<length opss. ops_of i tr = opss ! i))"

text \<open>
  The special case in which the chains complete one after the other, in the order of the
  list: each chain's operations are contiguous (the only schedules of a single worker).
\<close>

definition complete_in_order ::
  "(string \<Rightarrow> string \<times> nat) \<Rightarrow> (string \<Rightarrow> go_error + int64) \<Rightarrow> (chain \<Rightarrow> int) \<Rightarrow> httpClient
     \<Rightarrow> chain list \<Rightarrow> progress \<Rightarrow> progress exec"
where
  "complete_in_order esc unmarshal clock c submissions p =
     (case pool_items esc unmarshal clock c submissions of
        Panic e \<Rightarrow> Panic e
      | Return opss \<Rightarrow> Return (run_ops (concat opss) p))"

definition succeeds ::
  "(string \<Rightarrow> string \<times> nat) \<Rightarrow> (string \<Rightarrow> go_error + int64) \<Rightarrow> (chain \<Rightarrow> int) \<Rightarrow> httpClient
     \<Rightarrow> chain \<Rightarrow> bool"
where
  "succeeds esc unmarshal clock c submission =
     (case submit esc unmarshal (clock submission) c submission of
        Panic p \<Rightarrow> False
      | Return (err, ops) \<Rightarrow> err = None)"

section \<open>\<open>printStats\<close>\<close>

text \<open>
  The rate of one tick: \<open>float64(num-lastNumSubmitted) / 30.0\<close>. The subtraction is in
  \<open>int64\<close>; the quotient is taken here as an exact real number, of which the
  \<open>float64\<close> result is the rounding. The list holds the value of \<open>numSubmitted\<close> read at
  each tick.
\<close>

definition printStats_rate :: "int64 \<Rightarrow> int64 \<Rightarrow> real" where
  "printStats_rate num lastNumSubmitted = real_of_int (sint (num - lastNumSubmitted)) / 30"

fun printStats :: "int64 list \<Rightarrow> int64 \<Rightarrow> real list" where
  "printStats [] lastNumSubmitted = []"
| "printStats (num # ticks) lastNumSubmitted =
     printStats_rate num lastNumSubmitted # printStats ticks num"

section \<open>\<open>main\<close>\<close>

text \<open>
  The flags, and the parts of the world the program talks to: the store behind
  \<open>sql.Open\<close>, the live HTTP client, the two library functions left as parameters, the
  clock, and the scheduler, which picks the interleaving of the workers' operations.
\<close>

record config =
  dbURI :: string
  dryRun :: bool
  initOffset :: int
  workers :: int
  statPeriod :: int

record world =
  sql_Open :: "string \<Rightarrow> go_error + db"
  http_Post :: httpClient
  json_escape :: "string \<Rightarrow> string \<times> nat"
  json_Unmarshal :: "string \<Rightarrow> go_error + int64"
  clock :: "chain \<Rightarrow> int"
  schedule :: "atomic_op list list \<Rightarrow> atomic_op list"

text \<open>
  How the process ends: \<open>recorded\<close> is the value printed by the deferred function of
  \<open>main\<close> in the line \<open># [Last submitted chain ID: %d]\<close> (\<open>None\<close> when that function
  did not run), and \<open>exit_code\<close> is the exit status.
\<close>

record outcome =
  recorded :: "int64 option"
  exit_code :: nat

definition submissions_capacity :: nat where
  "submissions_capacity = 100000"

text \<open>
  \<open>main\<close>, with the goroutines run one after the other (\<open>getChains\<close>, then the assembly
  loop, then the pool), which does not change how the process ends:
  \<^item> \<open>panic(err)\<close> after \<open>sql.Open\<close> comes before the \<open>defer\<close> statement, so the deferred
    function is not registered yet: the runtime prints the panic and exits with status 2;
  \<^item> \<open>time.NewTicker\<close> panics on a non-positive interval, in the main goroutine and after
    the \<open>defer\<close>: the deferred function recovers, prints the counter (still 0) and calls
    \<open>os.Exit(1)\<close>;
  \<^item> an error of \<open>getChains\<close> becomes \<open>panic(err)\<close> in the goroutine that runs it. A
    deferred function runs only in the goroutine that panics, so the one of \<open>main\<close> does
    not run: the runtime prints the panic and exits with status 2. (\<open>chainsCh\<close> is not
    closed on this path, so \<open>main\<close> cannot return first.) The same holds for a panic in
    a worker goroutine;
  \<^item> with no worker, sends block once the channel's buffer is full, for ever;
  \<^item> otherwise \<open>main\<close> returns, the deferred function prints the counter, and the exit
    status is 0.
  \<open>None\<close> is a run that does not end (in the model, also when \<open>getChains\<close> does not
  return).
\<close>

definition main :: "config \<Rightarrow> world \<Rightarrow> outcome option" where
  "main cfg w =
     (case sql_Open w (dbURI cfg) of
        Inl err \<Rightarrow> Some \<lparr>recorded = None, exit_code = 2\<rparr>
      | Inr d \<Rightarrow>
          if statPeriod cfg \<le> 0 then Some \<lparr>recorded = Some 0, exit_code = 1\<rparr>
          else
            (case getChains d (initOffset cfg) of
               None \<Rightarrow> None
             | Some r \<Rightarrow>
                 (case returned r of
                    Some err \<Rightarrow> Some \<lparr>recorded = None, exit_code = 2\<rparr>
                  | None \<Rightarrow>
                      (let submissions = assemble d (emitted r) []
                       in if workers cfg \<le> 0 \<and> submissions_capacity < length submissions
                          then None
                          else
                            (case submitChains (dryRun cfg) (workers cfg) (http_Post w)
                                    (json_escape w) (json_Unmarshal w) (clock w) submissions of
                               Panic p \<Rightarrow> Some \<lparr>recorded = None, exit_code = 2\<rparr>
                             | Return opss \<Rightarrow>
                                 Some \<lparr>recorded =
                                         Some (lastSubmittedChain (run_ops (schedule w opss) progress0)),
                                       exit_code = 0\<rparr>)))))"

section \<open>The specification's wording, for comparison\<close>

text \<open>
  The specification's rule for \<open>newCount\<close>, with both times in milliseconds (the unit of
  the timestamp in an \<open>add-chain\<close> response of a Certificate Transparency log): the
  timestamp is later than the current time minus one hour.
\<close>

definition spec_within_last_hour_ms :: "int \<Rightarrow> int \<Rightarrow> bool" where
  "spec_within_last_hour_ms now ts = (now div 1000000 - 3600000 < ts)"

text \<open>
  The specification's rate: the difference of the counter between two ticks divided by
  the seconds between them, the stats interval (a \<open>time.Duration\<close>, in nanoseconds).
\<close>

definition spec_rate :: "int \<Rightarrow> int64 \<Rightarrow> int64 \<Rightarrow> real" where
  "spec_rate period num lastNumSubmitted =
     real_of_int (sint (num - lastNumSubmitted)) / (real_of_int period / 1000000000)"

text \<open>
  The specification's merge for \<open>lastSubmittedID\<close>: the maximum of the current value and
  the chain's ID, as signed 64-bit integers.
\<close>

definition spec_max_merge :: "int64 \<Rightarrow> int64 \<Rightarrow> int64" where
  "spec_max_merge current i = (if sint current \<le> sint i then i else current)"

section \<open>Auxiliary notions for the statements\<close>

text \<open>The last value stored into \<open>lastSubmittedChain\<close> by a list of operations.\<close>

fun last_store :: "atomic_op list \<Rightarrow> int64 option" where
  "last_store [] = None"
| "last_store (a # ops) =
     (case last_store ops of
        Some i \<Rightarrow> Some i
      | None \<Rightarrow> (case a of StoreLastSubmittedChain i \<Rightarrow> Some i | _ \<Rightarrow> None))"

text \<open>A text between double quotes, as it stands in a JSON document.\<close>

definition quoted :: "string \<Rightarrow> string" where
  "quoted s = dquote # s @ [dquote]"

section \<open>Concrete inputs\<close>

text \<open>
  An escape function (never consulted on base64 text), a live client that always answers
  200 with a body, a decoder that reads timestamp 0, and a clock fixed at
  2016-01-01T00:00:00Z.
\<close>

definition esc0 :: "string \<Rightarrow> string \<times> nat" where
  "esc0 s = (''?'', 1)"

definition ok_client :: httpClient where
  "ok_client url contentType body = Inr \<lparr>StatusCode = 200, Body = Some (''{}'', None)\<rparr>"

definition unm0 :: "string \<Rightarrow> go_error + int64" where
  "unm0 = (\<lambda>b. Inr 0)"

definition clk0 :: "chain \<Rightarrow> int" where
  "clk0 c = 1451606400000000000"

definition chain5 :: chain where
  "chain5 = \<lparr>Fingerprint = Some [5], ID = 5, certs = [Some [0x30]]\<rparr>"

definition chain3 :: chain where
  "chain3 = \<lparr>Fingerprint = Some [3], ID = 3, certs = [Some [0x31]]\<rparr>"

definition reportA :: report where
  "reportA = \<lparr>CertFP = ''A'', EndEntity = True\<rparr>"

definition reportB :: report where
  "reportB = \<lparr>CertFP = ''B'', EndEntity = False\<rparr>"

text \<open>A store with a full page at offset 0, 400 rows at offset 1000, and full pages elsewhere.\<close>

definition pages_db :: db where
  "pages_db =
     \<lparr>select_chains = (\<lambda>limit offset.
         if offset = 0 then Inr (replicate 1000 chain5)
         else if offset = 1000 then Inr (replicate 400 chain3)
         else Inr (replicate 1000 chain5)),
      select_reports = (\<lambda>fp. Inr []),
      select_raw = (\<lambda>fp. Inr None)\<rparr>"

text \<open>The specification's example: a leaf \<open>A\<close> with bytes \<open>X\<close>, another record \<open>B\<close> with bytes \<open>Y\<close>.\<close>

definition db_two_records :: db where
  "db_two_records =
     \<lparr>select_chains = (\<lambda>limit offset. Inr [chain5, chain3]),
      select_reports = (\<lambda>fp. Inr [reportA, reportB]),
      select_raw = (\<lambda>fp. if fp = ''A'' then Inr (Some [0x58]) else Inr (Some [0x59]))\<rparr>"

text \<open>The same store, but the report query fails for the chain with fingerprint 5.\<close>

definition db_broken_chain :: db where
  "db_broken_chain =
     \<lparr>select_chains = (\<lambda>limit offset. Inr [chain5, chain3]),
      select_reports = (\<lambda>fp. if fp = Some [5] then Inl (StoreError ''connection lost'')
                             else Inr [reportA, reportB]),
      select_raw = (\<lambda>fp. if fp = ''A'' then Inr (Some [0x58]) else Inr (Some [0x59]))\<rparr>"

text \<open>A store whose page query fails.\<close>

definition db_down :: db where
  "db_down =
     \<lparr>select_chains = (\<lambda>limit offset. Inl (StoreError ''connection refused'')),
      select_reports = (\<lambda>fp. Inr []),
      select_raw = (\<lambda>fp. Inr None)\<rparr>"

text \<open>A store in which the raw certificate of the leaf \<open>A\<close> is NULL.\<close>

definition db_nil_leaf :: db where
  "db_nil_leaf =
     \<lparr>select_chains = (\<lambda>limit offset. Inr [chain5]),
      select_reports = (\<lambda>fp. Inr [reportA, reportB]),
      select_raw = (\<lambda>fp. if fp = ''A'' then Inr None else Inr (Some [0x59]))\<rparr>"

text \<open>A store in which every chain has the single record \<open>B\<close>, which is no leaf.\<close>

definition db_no_leaf :: db where
  "db_no_leaf =
     \<lparr>select_chains = (\<lambda>limit offset. Inr [chain5, chain3]),
      select_reports = (\<lambda>fp. Inr [reportB]),
      select_raw = (\<lambda>fp. Inr (Some [0x59]))\<rparr>"

text \<open>
  A trace of two workers: the first takes the chain with ID 5 and the second the chain
  with ID 3; the second finishes while the first is between its two stores.
\<close>

definition mixed_trace :: "(nat \<times> atomic_op) list" where
  "mixed_trace =
     [(0, StoreLastSubmittedChain 5), (1, StoreLastSubmittedChain 3), (1, AddNumSubmitted),
      (1, StoreLastSubmittedChain 3), (0, AddNumSubmitted), (0, StoreLastSubmittedChain 5)]"

text \<open>The default flags, and a world around a given store.\<close>

definition flags0 :: config where
  "flags0 = \<lparr>dbURI = [], dryRun = False, initOffset = 0, workers = 5, statPeriod = 15000000000\<rparr>"

definition world0 :: "db \<Rightarrow> world" where
  "world0 d =
     \<lparr>sql_Open = (\<lambda>uri. Inr d), http_Post = ok_client, json_escape = esc0,
      json_Unmarshal = unm0, clock = clk0, schedule = concat\<rparr>"

section \<open>Facts about \<open>getCerts\<close> and the assembly loop\<close>

lemma getCerts_loop_ok:
  assumes "\<forall>r\<in>set rs. select_raw d (CertFP r) = Inr (raws (CertFP r))"
  shows "getCerts_loop d rs leaf others =
           Inr (if filter EndEntity rs = [] then leaf
                else raws (CertFP (last (filter EndEntity rs))),
                others @ map (\<lambda>r. raws (CertFP r)) (filter (\<lambda>r. \<not> EndEntity r) rs))"
  using assms by (induction rs arbitrary: leaf others) auto

lemma getCerts_loop_fails:
  assumes "r \<in> set rs" and "select_raw d (CertFP r) = Inl e"
  shows "\<exists>e'. getCerts_loop d rs leaf others = Inl e'"
  using assms by (induction rs arbitrary: leaf others) (auto split: sum.splits)

lemma assemble_batch_skip:
  "getCerts d c = Inl e \<Longrightarrow> assemble_batch d (c # rest) q = assemble_batch d rest q"
  by simp

text \<open>
  \<^bold>\<open>C4\<close>. For every chain whose fetched record set (the report query and the raw lookups
  succeed) has exactly one record \<open>l\<close> with \<open>EndEntity\<close> set, \<open>getCerts\<close> returns the
  chain with \<open>certs\<close> equal to that record's raw bytes followed by the raw bytes of the
  other records in the order they were fetched. The record's raw bytes are a certificate
  encoding, that is a byte sequence and not the \<open>nil\<close> slice: the last hypothesis.
\<close>

theorem getCerts_leaf_first:
  assumes "select_reports d (Fingerprint c) = Inr rs"
    and "\<forall>r\<in>set rs. select_raw d (CertFP r) = Inr (raws (CertFP r))"
    and "filter EndEntity rs = [l]"
    and "raws (CertFP l) \<noteq> None"
  shows "getCerts d c =
           Inr (c\<lparr>certs := raws (CertFP l)
                  # map (\<lambda>r. raws (CertFP r)) (filter (\<lambda>r. \<not> EndEntity r) rs)\<rparr>)"
  using assms(1,3,4) by (simp add: getCerts_def getCerts_loop_ok [OF assms(2)])

text \<open>The specification's example: records \<open>A\<close> (leaf, bytes \<open>X\<close>) and \<open>B\<close> (bytes \<open>Y\<close>) give \<open>[X, Y]\<close>.\<close>

theorem getCerts_leaf_first_witness:
  "getCerts db_two_records chain5 = Inr (chain5\<lparr>certs := [Some [0x58], Some [0x59]]\<rparr>)"
  using getCerts_leaf_first [of db_two_records chain5 "[reportA, reportB]"
      "\<lambda>fp. if fp = ''A'' then Some [0x58] else Some [0x59]" reportA]
  by (simp add: db_two_records_def reportA_def reportB_def)

text \<open>
  Outside the data model: were the raw certificate of the leaf NULL in the store, the
  lookup would leave \<open>raw\<close> \<open>nil\<close>, and \<open>getCerts\<close> would answer
  \<open>chain without end-entity\<close>, since \<open>leaf == nil\<close> is its test for "no leaf seen".
\<close>

lemma getCerts_nil_leaf_rejected:
  "select_reports db_nil_leaf (Fingerprint chain5) = Inr [reportA, reportB]
   \<and> filter EndEntity [reportA, reportB] = [reportA]
   \<and> select_raw db_nil_leaf (CertFP reportA) = Inr None
   \<and> select_raw db_nil_leaf (CertFP reportB) = Inr (Some [0x59])
   \<and> getCerts db_nil_leaf chain5 = Inl ChainWithoutEndEntity"
  by (simp add: getCerts_def db_nil_leaf_def reportA_def reportB_def)

text \<open>
  \<^bold>\<open>C6\<close>. For every chain whose fetched record set has no record with \<open>EndEntity\<close> set,
  \<open>getCerts\<close> returns the validation error \<open>chain without end-entity\<close>, and the assembly
  loop goes on with the next identity without adding the chain to the submission channel.
\<close>

theorem getCerts_no_leaf_skipped:
  assumes "select_reports d (Fingerprint c) = Inr rs"
    and "\<forall>r\<in>set rs. select_raw d (CertFP r) = Inr (raws (CertFP r))"
    and "filter EndEntity rs = []"
  shows "getCerts d c = Inl ChainWithoutEndEntity
         \<and> assemble_batch d (c # rest) q = assemble_batch d rest q"
  using assms(1,3) by (simp add: getCerts_def getCerts_loop_ok [OF assms(2)])

theorem getCerts_no_leaf_skipped_witness:
  "getCerts db_no_leaf chain5 = Inl ChainWithoutEndEntity
   \<and> assemble_batch db_no_leaf [chain5, chain3] [] = assemble_batch db_no_leaf [chain3] []"
  using getCerts_no_leaf_skipped [of db_no_leaf chain5 "[reportB]" "\<lambda>fp. Some [0x59]" "[chain3]" "[]"]
  by (simp add: db_no_leaf_def reportB_def)

text \<open>
  \<^bold>\<open>C3\<close> (as amended). A store-level error while fetching a chain's certificate records (the
  report query fails, or the raw lookup of one of its records fails) makes \<open>getCerts\<close>
  return an error, and the assembly loop treats it like any other error of \<open>getCerts\<close>:
  it goes on with the next identity, and the chain is not added to the submission channel.
\<close>

theorem store_error_skipped:
  assumes "select_reports d (Fingerprint c) = Inl e
           \<or> (\<exists>rs r. select_reports d (Fingerprint c) = Inr rs \<and> r \<in> set rs
                  \<and> select_raw d (CertFP r) = Inl e)"
  shows "(\<exists>e'. getCerts d c = Inl e')
         \<and> assemble_batch d (c # rest) q = assemble_batch d rest q"
proof -
  have "\<exists>e'. getCerts d c = Inl e'"
    using assms
  proof
    assume "select_reports d (Fingerprint c) = Inl e"
    then show ?thesis by (simp add: getCerts_def)
  next
    assume "\<exists>rs r. select_reports d (Fingerprint c) = Inr rs \<and> r \<in> set rs
                  \<and> select_raw d (CertFP r) = Inl e"
    then obtain rs r where rs: "select_reports d (Fingerprint c) = Inr rs"
      and r: "r \<in> set rs" "select_raw d (CertFP r) = Inl e" by blast
    from getCerts_loop_fails [OF r] obtain e' where "getCerts_loop d rs None [] = Inl e'"
      by blast
    with rs show ?thesis by (simp add: getCerts_def)
  qed
  then show ?thesis by (auto simp: assemble_batch_skip)
qed

theorem store_error_skipped_witness:
  "(\<exists>e'. getCerts db_broken_chain chain5 = Inl e')
   \<and> assemble_batch db_broken_chain [chain5, chain3] []
       = assemble_batch db_broken_chain [chain3] []"
  using store_error_skipped [of db_broken_chain chain5 "StoreError ''connection lost''" "[chain3]" "[]"]
  by (simp add: db_broken_chain_def chain5_def)

section \<open>Facts about \<open>getChains\<close>\<close>

lemma getChains_short_page:
  assumes "select_chains d maxChains off = Inr page" and "int (length page) < maxChains"
  shows "getChains d off = Some \<lparr>requests = [off], emitted = [page], returned = None\<rparr>"
  using assms by (simp add: getChains_def getChains_loop.simps)

lemma getChains_first_page_error:
  assumes "select_chains d maxChains off = Inl e" and "e \<noteq> ErrNoRows"
  shows "getChains d off = Some \<lparr>requests = [off], emitted = [], returned = Some e\<rparr>"
  using assms by (simp add: getChains_def getChains_loop.simps)

text \<open>
  \<^bold>\<open>C5\<close>. From offset 0, against a store that answers the request for 1000 rows at offset 0
  with 1000 rows and the one at offset 1000 with 400 rows, \<open>getChains\<close> returns without
  error after exactly the two requests at offsets 0 and 1000, having sent the two pages,
  1400 identities in all; no request follows the short page.
\<close>

theorem getChains_two_pages:
  assumes "select_chains d 1000 0 = Inr p1" and "length p1 = 1000"
    and "select_chains d 1000 1000 = Inr p2" and "length p2 = 400"
  shows "getChains d 0 = Some \<lparr>requests = [0, 1000], emitted = [p1, p2], returned = None\<rparr>
         \<and> length (concat [p1, p2]) = 1400"
proof -
  have first: "getChains_loop d 0 [] [] = getChains_loop d 1000 [0] [p1]"
    by (subst getChains_loop.simps) (simp add: maxChains_def go_int_def assms(1,2))
  have second: "getChains_loop d 1000 [0] [p1] =
                  Some \<lparr>requests = [0, 1000], emitted = [p1, p2], returned = None\<rparr>"
    by (subst getChains_loop.simps) (simp add: maxChains_def assms(3,4))
  from first second assms(2,4) show ?thesis
    by (simp add: getChains_def)
qed

theorem getChains_two_pages_witness:
  "getChains pages_db 0 =
     Some \<lparr>requests = [0, 1000], emitted = [replicate 1000 chain5, replicate 400 chain3],
           returned = None\<rparr>
   \<and> length (concat [replicate 1000 chain5, replicate 400 chain3]) = 1400"
  using getChains_two_pages [of pages_db "replicate 1000 chain5" "replicate 400 chain3"]
  by (simp add: pages_db_def)

section \<open>Facts about \<open>certsToSub\<close>\<close>

lemma length_encodeStd: "length encodeStd = 64"
  by (simp add: encodeStd_def)

lemma htmlSafe_encodeStd: "ch \<in> set encodeStd \<Longrightarrow> htmlSafe ch"
  by (auto simp: encodeStd_def htmlSafe_def)

lemma htmlSafe_enc: "htmlSafe (enc v)"
  by (rule htmlSafe_encodeStd) (simp add: enc_def length_encodeStd)

lemma htmlSafe_pad: "htmlSafe (CHR ''='')"
  by (simp add: htmlSafe_def)

lemma htmlSafe_EncodeToString: "ch \<in> set (EncodeToString bs) \<Longrightarrow> htmlSafe ch"
  by (induction bs arbitrary: ch rule: EncodeToString.induct)
     (auto simp: Let_def htmlSafe_enc htmlSafe_pad)

lemma json_string_body_safe:
  "(\<And>ch. ch \<in> set s \<Longrightarrow> htmlSafe ch) \<Longrightarrow> json_string_body esc s = s"
  by (induction s) auto

lemma json_string_base64: "json_string esc (EncodeToString bs) = quoted (EncodeToString bs)"
  by (simp add: json_string_def quoted_def json_string_body_safe htmlSafe_EncodeToString)

lemma json_string_chain: "json_string esc ''chain'' = quoted ''chain''"
  by (simp add: json_string_def quoted_def htmlSafe_def)

lemma collect_Inr: "collect (map (\<lambda>x. Inr (f x)) xs) = Inr (map f xs)"
  by (induction xs) auto

lemma certsToSub_loop_Chain:
  "Chain (certsToSub_loop cs sub) =
     (if cs = [] then Chain sub
      else Some ((case Chain sub of None \<Rightarrow> [] | Some ys \<Rightarrow> ys)
                 @ map (\<lambda>c. EncodeToString (bytes_of c)) cs))"
  by (induction cs arbitrary: sub) (auto simp: go_append_def split: option.splits)

lemma json_Marshal_strings:
  "collect (map (json_Marshal esc) (map GoString (map (\<lambda>c. EncodeToString (bytes_of c)) cs)))
     = Inr (map (\<lambda>c. quoted (EncodeToString (bytes_of c))) cs)"
proof -
  have "map (json_Marshal esc) (map GoString (map (\<lambda>c. EncodeToString (bytes_of c)) cs))
      = map (\<lambda>c. Inr (quoted (EncodeToString (bytes_of c)))) cs"
    by (simp add: json_string_base64)
  then show ?thesis by (simp only: collect_Inr)
qed

lemma json_Marshal_ctSubmission:
  "json_Marshal esc (ctSubmission_value (certsToSub_loop cs \<lparr>Chain = None\<rparr>)) =
     Inr (''{'' @ quoted ''chain'' @ '':''
          @ (if cs = [] then ''null''
             else ''['' @ commas (map (\<lambda>c. quoted (EncodeToString (bytes_of c))) cs) @ '']'')
          @ ''}'')"
proof (cases "cs = []")
  case True
  then show ?thesis
    by (simp add: ctSubmission_value_def json_string_chain)
next
  case False
  then show ?thesis
    by (simp add: ctSubmission_value_def certsToSub_loop_Chain json_string_chain
        json_Marshal_strings del: map_map)
qed

lemma certsToSub_returns: "\<exists>j. certsToSub esc cs = Return j"
  by (simp add: certsToSub_def json_Marshal_ctSubmission)

text \<open>
  \<^bold>\<open>C10\<close>. For every list of certificates, the empty one included, \<open>json.Marshal\<close> does
  not fail on the \<open>ctSubmission\<close> built by \<open>certsToSub\<close>, so \<open>certsToSub\<close> returns and does
  not panic; what it returns is the object with the one field \<open>chain\<close>, holding \<open>null\<close>
  for the empty list and otherwise the array of the standard base64 texts of the
  certificates, one per certificate and in the order of the input.
\<close>

theorem certsToSub_total:
  "certsToSub esc cs =
     Return (''{'' @ quoted ''chain'' @ '':''
             @ (if cs = [] then ''null''
                else ''['' @ commas (map (\<lambda>c. quoted (EncodeToString (bytes_of c))) cs) @ '']'')
             @ ''}'')"
proof -
  have "json_Marshal esc (ctSubmission_value (certsToSub_loop cs \<lparr>Chain = None\<rparr>)) =
     Inr (''{'' @ quoted ''chain'' @ '':''
          @ (if cs = [] then ''null''
             else ''['' @ commas (map (\<lambda>c. quoted (EncodeToString (bytes_of c))) cs) @ '']'')
          @ ''}'')"
    by (rule json_Marshal_ctSubmission)
  then show ?thesis
    unfolding certsToSub_def by simp
qed

text \<open>The bytes of \<open>Man\<close> and of \<open>M\<close> give the texts \<open>TWFu\<close> and \<open>TQ==\<close>.\<close>

theorem certsToSub_total_witness:
  "certsToSub esc0 [Some [0x4D, 0x61, 0x6E], Some [0x4D]] =
     Return (''{'' @ quoted ''chain'' @ '':['' @ quoted ''TWFu'' @ '','' @ quoted ''TQ=='' @ '']}'')
   \<and> certsToSub esc0 [] = Return (''{'' @ quoted ''chain'' @ '':null}'')"
  using certsToSub_total [of esc0 "[Some [0x4D, 0x61, 0x6E], Some [0x4D]]"]
    certsToSub_total [of esc0 "[]"]
  by (simp add: bytes_of_def enc_def encodeStd_def)

section \<open>Facts about \<open>submit\<close> and the worker pool\<close>

lemma run_ops_lastSubmittedChain:
  "lastSubmittedChain (run_ops ops p) =
     (case last_store ops of None \<Rightarrow> lastSubmittedChain p | Some i \<Rightarrow> i)"
proof (induction ops arbitrary: p)
  case Nil
  show ?case by (simp add: run_ops_def)
next
  case (Cons a ops)
  have "run_ops (a # ops) p = run_ops ops (apply_op p a)"
    by (simp add: run_ops_def)
  then show ?case
    using Cons.IH [of "apply_op p a"]
    by (cases a) (auto split: option.splits)
qed

lemma last_store_append:
  "last_store (xs @ ys) = (case last_store ys of None \<Rightarrow> last_store xs | Some i \<Rightarrow> Some i)"
  by (induction xs) (auto split: option.splits atomic_op.splits)

lemma submit_nil_body: "submit esc unm now dryClient_Post s = Panic NilDereference"
proof -
  obtain j where "certsToSub esc (certs s) = Return j"
    using certsToSub_returns by blast
  then show ?thesis
    by (simp add: submit_def dryClient_Post_def)
qed

lemma submit_ok_client:
  "submit esc (\<lambda>b. Inr ts) now ok_client s =
     Return (None, (if cutoff now < sint ts then [AddNumNewSubmitted] else [])
                   @ [StoreLastSubmittedChain (ID s), AddNumSubmitted])"
proof -
  obtain j where "certsToSub esc (certs s) = Return j"
    using certsToSub_returns by blast
  then show ?thesis
    by (simp add: submit_def ok_client_def http_StatusOK_def)
qed

lemma submit_cases:
  assumes "submit esc unm now c s = Return (err, ops)"
  shows "(err \<noteq> None \<and> ops = []) \<or> (err = None \<and> last_store ops = Some (ID s))"
proof -
  obtain j where "certsToSub esc (certs s) = Return j"
    using certsToSub_returns by blast
  with assms show ?thesis
    by (auto simp: submit_def split: sum.splits option.splits prod.splits if_splits)
qed

lemma worker_item_cases:
  assumes "worker_item esc unm now c s = Return ops"
  shows "(case submit esc unm now c s of
            Panic e \<Rightarrow> False
          | Return (err, ops') \<Rightarrow>
              if err = None then last_store ops = Some (ID s) else ops = [])"
proof (cases "submit esc unm now c s")
  case (Panic e)
  with assms show ?thesis by (simp add: worker_item_def)
next
  case (Return r)
  obtain err ops' where r: "r = (err, ops')" by (cases r)
  from submit_cases [OF Return [unfolded r]] assms Return r show ?thesis
    by (auto simp: worker_item_def last_store_append)
qed

lemma pool_items_last_store:
  assumes "pool_items esc unm clk c subs = Return opss"
  shows "last_store (concat opss) =
           (if filter (succeeds esc unm clk c) subs = [] then None
            else Some (ID (last (filter (succeeds esc unm clk c) subs))))"
  using assms
proof (induction subs arbitrary: opss)
  case Nil
  then show ?case by simp
next
  case (Cons s subs)
  from Cons.prems obtain ops rest where
    w: "worker_item esc unm (clk s) c s = Return ops"
    and r: "pool_items esc unm clk c subs = Return rest"
    and o: "opss = ops # rest"
    by (auto split: exec.splits)
  have hd: "if succeeds esc unm clk c s then last_store ops = Some (ID s) else ops = []"
    using worker_item_cases [OF w]
    by (auto simp: succeeds_def split: exec.splits prod.splits if_splits)
  from hd Cons.IH [OF r] o show ?case
    by (auto simp: last_store_append split: if_splits)
qed

lemma last_store_mem: "last_store ops = Some i \<Longrightarrow> StoreLastSubmittedChain i \<in> set ops"
  by (induction ops) (auto split: option.splits atomic_op.splits)

lemma last_store_None: "last_store ops = None \<Longrightarrow> StoreLastSubmittedChain i \<notin> set ops"
  by (induction ops) (auto split: option.splits atomic_op.splits)

lemma worker_item_store:
  assumes "worker_item esc unm (clk s) c s = Return ops"
  shows "StoreLastSubmittedChain i \<in> set ops \<longleftrightarrow> succeeds esc unm clk c s \<and> i = ID s"
proof -
  obtain j where "certsToSub esc (certs s) = Return j"
    using certsToSub_returns by blast
  with assms show ?thesis
    by (auto simp: worker_item_def succeeds_def submit_def
        split: sum.splits option.splits prod.splits if_splits)
qed

lemma pool_items_store:
  assumes "pool_items esc unm clk c subs = Return opss"
  shows "StoreLastSubmittedChain i \<in> set (concat opss)
         \<longleftrightarrow> (\<exists>s\<in>set subs. succeeds esc unm clk c s \<and> i = ID s)"
  using assms
proof (induction subs arbitrary: opss)
  case Nil
  then show ?case by simp
next
  case (Cons s subs)
  from Cons.prems obtain ops rest where
    w: "worker_item esc unm (clk s) c s = Return ops"
    and r: "pool_items esc unm clk c subs = Return rest"
    and o: "opss = ops # rest"
    by (auto split: exec.splits)
  from worker_item_store [of esc unm clk s c ops i, OF w] Cons.IH [OF r] o show ?case
    by auto
qed

text \<open>
  In whatever order the operations of the pool are applied, \<open>lastSubmittedChain\<close> ends as
  the ID of one of the chains submitted with success (the one whose store came last), and
  is left alone when there is none.
\<close>

lemma lastSubmitted_any_order:
  assumes "pool_items esc unm clk c subs = Return opss" and "set tr = set (concat opss)"
  shows "if \<exists>s\<in>set subs. succeeds esc unm clk c s
         then \<exists>s\<in>set subs. succeeds esc unm clk c s \<and> lastSubmittedChain (run_ops tr p) = ID s
         else lastSubmittedChain (run_ops tr p) = lastSubmittedChain p"
proof (cases "last_store tr")
  case None
  from last_store_None [OF None] assms(2) pool_items_store [OF assms(1)]
  have "\<not> (\<exists>s\<in>set subs. succeeds esc unm clk c s)" by blast
  with None show ?thesis by (simp add: run_ops_lastSubmittedChain)
next
  case (Some i)
  from last_store_mem [OF Some] assms(2) pool_items_store [OF assms(1)]
  have "\<exists>s\<in>set subs. succeeds esc unm clk c s \<and> i = ID s" by blast
  with Some show ?thesis by (auto simp: run_ops_lastSubmittedChain)
qed

lemma worker_item_ok_client:
  "worker_item esc0 unm0 (clk0 x) ok_client s =
     Return [StoreLastSubmittedChain (ID s), AddNumSubmitted, StoreLastSubmittedChain (ID s)]"
  by (simp add: worker_item_def unm0_def submit_ok_client clk0_def cutoff_def
      signed_divide_int_def)

lemma ops_of_last:
  assumes "tr \<noteq> []"
  shows "ops_of (fst (last tr)) tr \<noteq> [] \<and> last (ops_of (fst (last tr)) tr) = snd (last tr)"
proof -
  from assms obtain xs e where tr: "tr = xs @ [e]"
    by (cases tr rule: rev_cases) auto
  then show ?thesis by (simp add: ops_of_def)
qed

lemma pool_items_nth:
  assumes "pool_items esc unm clk c subs = Return opss"
  shows "length opss = length subs
         \<and> (\<forall>i<length subs. worker_item esc unm (clk (subs ! i)) c (subs ! i) = Return (opss ! i))"
  using assms
proof (induction subs arbitrary: opss)
  case Nil
  then show ?case by simp
next
  case (Cons s subs)
  from Cons.prems obtain ops rest where
    w: "worker_item esc unm (clk s) c s = Return ops"
    and r: "pool_items esc unm clk c subs = Return rest"
    and o: "opss = ops # rest"
    by (auto split: exec.splits)
  from Cons.IH [OF r] w o show ?case
    by (auto simp: nth_Cons split: nat.splits)
qed

lemma worker_item_last:
  assumes "worker_item esc unm (clk s) c s = Return ops"
  shows "if succeeds esc unm clk c s
         then ops \<noteq> [] \<and> last ops = StoreLastSubmittedChain (ID s)
         else ops = []"
proof -
  obtain j where "certsToSub esc (certs s) = Return j"
    using certsToSub_returns by blast
  with assms show ?thesis
    by (auto simp: worker_item_def succeeds_def submit_def
        split: sum.splits option.splits prod.splits if_splits)
qed

lemma run_ops_ends_with_store:
  assumes "ops \<noteq> []" and "last ops = StoreLastSubmittedChain i"
  shows "lastSubmittedChain (run_ops ops p) = i"
proof -
  from assms obtain xs where "ops = xs @ [StoreLastSubmittedChain i]"
    by (cases ops rule: rev_cases) auto
  then show ?thesis
    by (simp add: run_ops_def)
qed

lemma interleaving_empty_iff:
  assumes "pool_items esc unm clk c subs = Return opss" and "interleaving opss tr"
  shows "tr = [] \<longleftrightarrow> filter (succeeds esc unm clk c) subs = []"
proof
  assume "tr = []"
  with assms(2) have e: "\<forall>i<length opss. opss ! i = []"
    by (auto simp: interleaving_def ops_of_def)
  show "filter (succeeds esc unm clk c) subs = []"
  proof (rule ccontr)
    assume "filter (succeeds esc unm clk c) subs \<noteq> []"
    then obtain s where s: "s \<in> set subs" "succeeds esc unm clk c s"
      by (auto simp: filter_empty_conv)
    then obtain i where i: "i < length subs" "subs ! i = s"
      by (auto simp: in_set_conv_nth)
    from pool_items_nth [OF assms(1)] i
    have len: "length opss = length subs"
      and w: "worker_item esc unm (clk s) c s = Return (opss ! i)" by auto
    from worker_item_last [of esc unm clk s c "opss ! i", OF w] s(2) have "opss ! i \<noteq> []" by simp
    with e i(1) len show False by simp
  qed
next
  assume none: "filter (succeeds esc unm clk c) subs = []"
  show "tr = []"
  proof (rule ccontr)
    assume ne: "tr \<noteq> []"
    let ?i = "fst (last tr)"
    from ne have "last tr \<in> set tr" by simp
    with assms(2) have i: "?i < length opss" by (auto simp: interleaving_def)
    with assms(2) have o: "ops_of ?i tr = opss ! ?i" by (auto simp: interleaving_def)
    from pool_items_nth [OF assms(1)] i
    have w: "worker_item esc unm (clk (subs ! ?i)) c (subs ! ?i) = Return (opss ! ?i)"
      and l: "?i < length subs" by auto
    from none l have "\<not> succeeds esc unm clk c (subs ! ?i)"
      by (auto simp: filter_empty_conv)
    with worker_item_last [of esc unm clk "subs ! ?i" c "opss ! ?i", OF w]
    have "opss ! ?i = []" by simp
    with o ops_of_last [OF ne] show False by simp
  qed
qed

text \<open>
  When the chains complete one after the other in the order \<open>subs\<close>, \<open>lastSubmittedChain\<close>
  ends as the ID of the last chain in that order whose submission succeeded.
\<close>

lemma lastSubmitted_in_order:
  assumes "complete_in_order esc unm clk c subs p = Return p'"
  shows "lastSubmittedChain p' =
           (if filter (succeeds esc unm clk c) subs = [] then lastSubmittedChain p
            else ID (last (filter (succeeds esc unm clk c) subs)))"
proof -
  from assms obtain opss where
    o: "pool_items esc unm clk c subs = Return opss" and p': "p' = run_ops (concat opss) p"
    by (auto simp: complete_in_order_def split: exec.splits)
  show ?thesis
    unfolding p' run_ops_lastSubmittedChain pool_items_last_store [OF o] by simp
qed

text \<open>
  \<^bold>\<open>C1\<close> (as amended). Every successful submission overwrites \<open>lastSubmittedChain\<close> with
  the ID of its chain, whatever the current value is, and that store is the last
  operation of the chain. So for every interleaving of the chains' operations, with any
  number of workers: the trace is empty exactly when no submission succeeded, and then
  \<open>lastSubmittedChain\<close> keeps its value; otherwise the chain whose operation ends the
  trace (the chain that completed last) was submitted with success, and
  \<open>lastSubmittedChain\<close> ends as the ID of that chain. The final value depends on the
  order of completion; it is not the maximum.
\<close>

theorem lastSubmitted_is_last_completed:
  assumes "pool_items esc unm clk c subs = Return opss" and "interleaving opss tr"
  shows "(tr = [] \<longleftrightarrow> filter (succeeds esc unm clk c) subs = [])
         \<and> (if tr = [] then lastSubmittedChain (run_ops (map snd tr) p) = lastSubmittedChain p
            else fst (last tr) < length subs
                 \<and> succeeds esc unm clk c (subs ! fst (last tr))
                 \<and> lastSubmittedChain (run_ops (map snd tr) p) = ID (subs ! fst (last tr)))"
proof (cases "tr = []")
  case True
  with interleaving_empty_iff [OF assms] show ?thesis
    by (simp add: run_ops_def)
next
  case False
  let ?i = "fst (last tr)"
  from False have "last tr \<in> set tr" by simp
  with assms(2) have i: "?i < length opss" by (auto simp: interleaving_def)
  with assms(2) have o: "ops_of ?i tr = opss ! ?i" by (auto simp: interleaving_def)
  from pool_items_nth [OF assms(1)] i
  have w: "worker_item esc unm (clk (subs ! ?i)) c (subs ! ?i) = Return (opss ! ?i)"
    and l: "?i < length subs" by auto
  from ops_of_last [OF False] o
  have ne: "opss ! ?i \<noteq> []" and la: "last (opss ! ?i) = snd (last tr)" by simp_all
  from worker_item_last [of esc unm clk "subs ! ?i" c "opss ! ?i", OF w] ne
  have su: "succeeds esc unm clk c (subs ! ?i)"
    and st: "last (opss ! ?i) = StoreLastSubmittedChain (ID (subs ! ?i))"
    by (auto split: if_splits)
  from False have "map snd tr \<noteq> []" and "last (map snd tr) = snd (last tr)"
    by (simp_all add: last_map)
  with la st have "lastSubmittedChain (run_ops (map snd tr) p) = ID (subs ! ?i)"
    by (intro run_ops_ends_with_store) simp_all
  with False l su interleaving_empty_iff [OF assms] show ?thesis by simp
qed


text \<open>
  In \<open>mixed_trace\<close> the chain with ID 3 starts and finishes between the two stores of the
  chain with ID 5, which completes last: the final value is 5.
\<close>

theorem lastSubmitted_is_last_completed_witness:
  "pool_items esc0 unm0 clk0 ok_client [chain5, chain3] =
     Return [[StoreLastSubmittedChain 5, AddNumSubmitted, StoreLastSubmittedChain 5],
             [StoreLastSubmittedChain 3, AddNumSubmitted, StoreLastSubmittedChain 3]]
   \<and> interleaving [[StoreLastSubmittedChain 5, AddNumSubmitted, StoreLastSubmittedChain 5],
                    [StoreLastSubmittedChain 3, AddNumSubmitted, StoreLastSubmittedChain 3]]
                   mixed_trace
   \<and> fst (last mixed_trace) = 0
   \<and> succeeds esc0 unm0 clk0 ok_client chain5
   \<and> lastSubmittedChain (run_ops (map snd mixed_trace) progress0) = 5"
proof -
  have p: "pool_items esc0 unm0 clk0 ok_client [chain5, chain3] =
     Return [[StoreLastSubmittedChain 5, AddNumSubmitted, StoreLastSubmittedChain 5],
             [StoreLastSubmittedChain 3, AddNumSubmitted, StoreLastSubmittedChain 3]]"
    by (simp add: worker_item_ok_client chain5_def chain3_def)
  have i: "interleaving [[StoreLastSubmittedChain 5, AddNumSubmitted, StoreLastSubmittedChain 5],
                    [StoreLastSubmittedChain 3, AddNumSubmitted, StoreLastSubmittedChain 3]]
                   mixed_trace"
    by (simp add: interleaving_def ops_of_def mixed_trace_def numeral_2_eq_2 less_Suc_eq)
  have l: "fst (last mixed_trace) = 0" and n: "mixed_trace \<noteq> []"
    by (simp_all add: mixed_trace_def)
  from lastSubmitted_is_last_completed [OF p i, of progress0] l n
  have "succeeds esc0 unm0 clk0 ok_client chain5
        \<and> lastSubmittedChain (run_ops (map snd mixed_trace) progress0) = ID chain5"
    by simp
  with p i l show ?thesis by (simp add: chain5_def)
qed

text \<open>
  \<^bold>\<open>C1\<close> as stated fails: when the chain with ID 5 completes before the chain with ID 3,
  both with success, \<open>lastSubmittedChain\<close> ends as 3, while the maximum merge of the
  specification gives 5.
\<close>

theorem lastSubmitted_not_max:
  "complete_in_order esc0 unm0 clk0 ok_client [chain5, chain3] progress0 =
     Return \<lparr>lastSubmittedChain = 3, numSubmitted = 2, numNewSubmitted = 0\<rparr>
   \<and> spec_max_merge (spec_max_merge (lastSubmittedChain progress0) (ID chain5)) (ID chain3) = 5"
  by (simp add: complete_in_order_def worker_item_ok_client run_ops_def progress0_def
      chain5_def chain3_def spec_max_merge_def)

text \<open>
  \<^bold>\<open>C2\<close>. Under dry-run the code does not report success: \<open>dryClient.Post\<close> returns a
  response whose \<open>Body\<close> is \<open>nil\<close>, and \<open>submit\<close> dereferences it, so every dry-run
  submission panics before any counter is touched, and with it the pool (here with the
  default five workers) as soon as the channel holds a chain.
\<close>

theorem dry_run_submit_panics:
  "submit esc unm now dryClient_Post s = Panic NilDereference
   \<and> submitChains True 5 live esc unm clk (s # rest) = Panic NilDereference"
  by (simp add: submitChains_def worker_item_def submit_nil_body)

text \<open>With the default flags but \<open>dryRun\<close> set, the whole run ends in the panic: nothing is recorded.\<close>

theorem dry_run_submit_panics_witness:
  "main (flags0\<lparr>dryRun := True\<rparr>) (world0 db_two_records) = Some \<lparr>recorded = None, exit_code = 2\<rparr>"
proof -
  have c: "getChains db_two_records 0 =
             Some \<lparr>requests = [0], emitted = [[chain5, chain3]], returned = None\<rparr>"
    by (rule getChains_short_page) (simp_all add: db_two_records_def maxChains_def)
  have g: "getCerts db_two_records x = Inr (x\<lparr>certs := [Some [0x58], Some [0x59]]\<rparr>)" for x
    by (simp add: getCerts_def db_two_records_def reportA_def reportB_def)
  have a: "assemble db_two_records [[chain5, chain3]] [] =
             [chain5\<lparr>certs := [Some [0x58], Some [0x59]]\<rparr>, chain3\<lparr>certs := [Some [0x58], Some [0x59]]\<rparr>]"
    by (simp add: g)
  have "submitChains True 5 ok_client esc0 unm0 clk0
          [chain5\<lparr>certs := [Some [0x58], Some [0x59]]\<rparr>, chain3\<lparr>certs := [Some [0x58], Some [0x59]]\<rparr>]
        = Panic NilDereference"
    using dry_run_submit_panics by blast
  then show ?thesis
    unfolding main_def Let_def
    by (simp add: flags0_def world0_def c a submissions_capacity_def del: assemble.simps)
qed

text \<open>
  \<^bold>\<open>C8\<close>. The comparison of \<open>submit\<close> is not in one unit: the cutoff is in microseconds,
  while the log reports milliseconds. At 2016-01-01T00:00:00Z a response stamped with
  that very instant is within the last hour, and \<open>submit\<close> does not count it as new.
\<close>

theorem newCount_not_incremented_for_recent_timestamp:
  "spec_within_last_hour_ms 1451606400000000000 1451606400000
   \<and> cutoff 1451606400000000000 = 1451602800000000
   \<and> submit esc0 (\<lambda>b. Inr 1451606400000) 1451606400000000000 ok_client chain5 =
       Return (None, [StoreLastSubmittedChain 5, AddNumSubmitted])"
  by (simp add: submit_ok_client spec_within_last_hour_ms_def cutoff_def chain5_def
      signed_divide_int_def)

section \<open>Facts about \<open>printStats\<close> and \<open>main\<close>\<close>

text \<open>
  \<^bold>\<open>C9\<close>. The rate printed at a tick is the difference of the counter divided by the
  constant 30, not by the seconds between two ticks: with the default interval of 15
  seconds and 30 submissions between two ticks, \<open>printStats\<close> reports 1 per second where
  the specification's rate is 2.
\<close>

theorem rate_divides_by_thirty:
  "printStats [0, 30] 0 = [0, 1] \<and> spec_rate (statPeriod flags0) 30 0 = 2"
  by (simp add: printStats_rate_def spec_rate_def flags0_def)

text \<open>
  \<^bold>\<open>C7\<close>. When the first page request of \<open>getChains\<close> fails with an error other than
  \<open>sql.ErrNoRows\<close>, the process ends with a non-zero status, but the deferred function of
  \<open>main\<close> does not run: the last submitted chain ID is not recorded.
\<close>

theorem source_error_not_recorded:
  assumes "sql_Open w (dbURI cfg) = Inr d" and "0 < statPeriod cfg"
    and "select_chains d maxChains (initOffset cfg) = Inl e" and "e \<noteq> ErrNoRows"
  shows "main cfg w = Some \<lparr>recorded = None, exit_code = 2\<rparr>"
proof -
  have "getChains d (initOffset cfg) =
          Some \<lparr>requests = [initOffset cfg], emitted = [], returned = Some e\<rparr>"
    using assms(3,4) by (rule getChains_first_page_error)
  with assms(1,2) show ?thesis
    by (simp add: main_def)
qed

theorem source_error_not_recorded_witness:
  "main flags0 (world0 db_down) = Some \<lparr>recorded = None, exit_code = 2\<rparr>"
  using source_error_not_recorded [of "world0 db_down" flags0 db_down "StoreError ''connection refused''"]
  by (simp add: world0_def flags0_def db_down_def)

text \<open>
  \<^bold>\<open>C3\<close> as stated fails: the report query of the chain with fingerprint 5 fails with a
  store error, and the assembly loop goes on; the next chain is assembled and submitted,
  and the run ends normally, with exit status 0.
\<close>

theorem store_error_not_fatal:
  "getCerts db_broken_chain chain5 = Inl (StoreError ''connection lost'')
   \<and> assemble db_broken_chain [[chain5, chain3]] [] = [chain3\<lparr>certs := [Some [0x58], Some [0x59]]\<rparr>]
   \<and> main flags0 (world0 db_broken_chain) = Some \<lparr>recorded = Some 3, exit_code = 0\<rparr>"
proof -
  have g5: "getCerts db_broken_chain chain5 = Inl (StoreError ''connection lost'')"
    by (simp add: getCerts_def db_broken_chain_def chain5_def)
  have g3: "getCerts db_broken_chain chain3 = Inr (chain3\<lparr>certs := [Some [0x58], Some [0x59]]\<rparr>)"
    by (simp add: getCerts_def db_broken_chain_def chain3_def reportA_def reportB_def)
  have a: "assemble db_broken_chain [[chain5, chain3]] [] = [chain3\<lparr>certs := [Some [0x58], Some [0x59]]\<rparr>]"
    by (simp add: g5 g3)
  have c: "getChains db_broken_chain 0 =
             Some \<lparr>requests = [0], emitted = [[chain5, chain3]], returned = None\<rparr>"
    by (rule getChains_short_page) (simp_all add: db_broken_chain_def maxChains_def)
  have i: "ID (chain3\<lparr>certs := [Some [0x58], Some [0x59]]\<rparr>) = 3"
    by (simp add: chain3_def)
  have m: "main flags0 (world0 db_broken_chain) = Some \<lparr>recorded = Some 3, exit_code = 0\<rparr>"
    by (simp add: main_def flags0_def world0_def c g5 g3 submitChains_def worker_item_ok_client
        i run_ops_def progress0_def submissions_capacity_def)
  from g5 a m show ?thesis by simp
qed

end
